theory Spec2Isabelle
  imports Main "HOL-Library.Multiset"
begin

section \<open>Type hierarchy sessions (vs/workbench/contrib/typeHierarchy/common/typeHierarchy.ts)\<close>

subsection \<open>Untyped runtime values\<close>

text \<open>
  The API commands receive their arguments as \<^verbatim>\<open>any\<close>, and a provider may answer an
  expansion request with any value at all, so these values are modelled untyped. Objects
  are association lists of own properties; numbers are only ever inspected by
  \<^verbatim>\<open>typeof\<close>, so an integer stands for them.
\<close>

datatype jsval =
    JUndefined
  | JNull
  | JBoolean bool
  | JNumber int
  | JString string
  | JArray "jsval list"
  | JObject "(string \<times> jsval) list"

fun typeof :: "jsval \<Rightarrow> string" where
  "typeof JUndefined = ''undefined''"
| "typeof JNull = ''object''"
| "typeof (JBoolean b) = ''boolean''"
| "typeof (JNumber n) = ''number''"
| "typeof (JString s) = ''string''"
| "typeof (JArray xs) = ''object''"
| "typeof (JObject fs) = ''object''"

text \<open>
  Property read \<^verbatim>\<open>obj.p\<close> on a value other than \<^verbatim>\<open>null\<close> and \<^verbatim>\<open>undefined\<close>
  (there the read raises a TypeError, which the callers below write out): a missing
  property reads as \<^verbatim>\<open>undefined\<close>. Only the item fields are ever read, which arrays
  and primitives do not have.
\<close>

fun getProperty :: "jsval \<Rightarrow> string \<Rightarrow> jsval" where
  "getProperty (JObject fs) p = (case map_of fs p of None \<Rightarrow> JUndefined | Some v \<Rightarrow> v)"
| "getProperty v p = JUndefined"

datatype error =
    UnexpectedType
  | TypeError
  | External jsval

subsection \<open>Data model\<close>

type_synonym URI = string
type_synonym SymbolKind = nat
type_synonym SymbolTag = nat
type_synonym ITextModel = nat
type_synonym IPosition = jsval

record IRange =
  startLineNumber :: int
  startColumn :: int
  endLineNumber :: int
  endColumn :: int

text \<open>The fields \<^verbatim>\<open>_sessionId\<close>, \<^verbatim>\<open>_itemId\<close> and \<^verbatim>\<open>range\<close> of the source are
  \<open>sessionId\<close>, \<open>itemId\<close> and \<open>range'\<close> here.\<close>

record TypeHierarchyItem =
  sessionId :: string
  itemId :: string
  name :: string
  kind :: SymbolKind
  detail :: "string option"
  uri :: URI
  range' :: IRange
  selectionRange :: IRange
  tags :: "SymbolTag list option"

text \<open>
  A session is an object of the provider. Its method \<^verbatim>\<open>dispose()\<close> is code of the
  provider: the world below records every invocation under the identity \<open>sessionObject\<close>
  of the session it was invoked on, and the call either returns (\<open>disposeThrows\<close> is
  \<open>None\<close>) or throws a value.
\<close>

record TypeHierarchySession =
  sessionRoots :: "TypeHierarchyItem list"
  sessionObject :: nat
  disposeThrows :: "jsval option"

record CancellationToken =
  isCancellationRequested :: bool

definition CancellationToken_None :: CancellationToken where
  "CancellationToken_None = \<lparr>isCancellationRequested = False\<rparr>"

definition CancellationToken_Cancelled :: CancellationToken where
  "CancellationToken_Cancelled = \<lparr>isCancellationRequested = True\<rparr>"

text \<open>
  What a call into a provider (or another external collaborator) does: it throws
  synchronously, it returns a promise that rejects, or it yields a value. Under
  \<^verbatim>\<open>await\<close> inside \<^verbatim>\<open>try\<close> the first two are caught alike.
\<close>

datatype 'a ProviderResult =
    Throws jsval
  | Rejects jsval
  | Resolves 'a

text \<open>
  \<^verbatim>\<open>prepareTypeHierarchy\<close> yields a session or \<^verbatim>\<open>undefined\<close>/\<^verbatim>\<open>null\<close> (\<open>None\<close>);
  the expansion calls yield whatever the provider returns.
\<close>

record TypeHierarchyProvider =
  prepareTypeHierarchy ::
    "ITextModel \<Rightarrow> IPosition \<Rightarrow> CancellationToken \<Rightarrow> TypeHierarchySession option ProviderResult"
  provideSupertypes :: "jsval \<Rightarrow> CancellationToken \<Rightarrow> jsval ProviderResult"
  provideSubtypes :: "jsval \<Rightarrow> CancellationToken \<Rightarrow> jsval ProviderResult"

text \<open>The field \<^verbatim>\<open>id\<close> of the source is \<open>id'\<close>; \<open>ref\<close> is the address of the
  model's handle in the heap of the world.\<close>

record TypeHierarchyModel =
  id' :: string
  provider :: TypeHierarchyProvider
  roots :: "TypeHierarchyItem list"
  ref :: nat
  root :: "TypeHierarchyItem option"

text \<open>
  Modelled from the spec: the class \<^verbatim>\<open>RefCountedDisposable\<close> of
  \<^verbatim>\<open>vs/base/common/lifecycle\<close> is not among the sources. The spec (3): it wraps
  exactly one provider session plus an integer reference count.
\<close>

record RefCountedDisposable =
  counter :: int
  disposable :: TypeHierarchySession

datatype providerCall =
    PrepareCall ITextModel IPosition CancellationToken
  | SupertypesCall jsval CancellationToken
  | SubtypesCall jsval CancellationToken

text \<open>
  The mutable state the module works on: the handle objects by address, the log of
  \<^verbatim>\<open>dispose()\<close> invocations on provider sessions, the errors handed to
  \<^verbatim>\<open>onUnexpectedExternalError\<close>, the calls made into providers, the module-level map
  \<^verbatim>\<open>_models\<close> in insertion order, and the text model references released so far.
\<close>

record world =
  heap :: "RefCountedDisposable list"
  sessionDisposals :: "nat list"
  unexpectedExternalErrors :: "jsval list"
  providerCalls :: "providerCall list"
  models :: "(string \<times> TypeHierarchyModel) list"
  releasedReferences :: "nat list"

text \<open>
  Modelled from the spec: the constructor of \<^verbatim>\<open>RefCountedDisposable\<close>, which is not
  among the sources. The spec (3): the count is initialised to 1 at creation. A new
  object gets the next free address.
\<close>

definition new_RefCountedDisposable :: "TypeHierarchySession \<Rightarrow> world \<Rightarrow> nat \<times> world" where
  "new_RefCountedDisposable session w =
     (length (heap w),
      w\<lparr>heap := heap w @ [\<lparr>counter = 1, disposable = session\<rparr>]\<rparr>)"

text \<open>
  Modelled from the spec: \<^verbatim>\<open>RefCountedDisposable.acquire\<close>, which is not among the
  sources. The spec (3, 4.2): it increments the count and returns a handle referencing
  the same underlying session, here the same address. A reference always denotes an
  allocated handle; on any other address nothing happens.
\<close>

definition acquire :: "nat \<Rightarrow> world \<Rightarrow> nat \<times> world" where
  "acquire r w =
     (if r < length (heap w)
      then (r, w\<lparr>heap := (heap w)[r := (heap w ! r)\<lparr>counter := counter (heap w ! r) + 1\<rparr>]\<rparr>)
      else (r, w))"

text \<open>
  Modelled from the spec: \<^verbatim>\<open>RefCountedDisposable.release\<close>, which is not among the
  sources. The spec (3, 4.2): it decrements the count and, when the count reaches zero,
  invokes the \<^verbatim>\<open>dispose()\<close> of the underlying session, synchronously. Nothing guards a
  release beyond zero (spec 4.1, 9): the count then goes negative and no further dispose
  follows. Nothing catches what the session's \<^verbatim>\<open>dispose()\<close> throws either: the count
  is already decremented, the invocation has taken place, and the release throws the
  same value.
\<close>

definition release :: "nat \<Rightarrow> world \<Rightarrow> (error + unit) \<times> world" where
  "release r w =
     (if r < length (heap w)
      then
        (let c = counter (heap w ! r) - 1;
             w' = w\<lparr>heap := (heap w)[r := (heap w ! r)\<lparr>counter := c\<rparr>]\<rparr>
         in if c = 0
            then
              (let w'' = w'\<lparr>sessionDisposals :=
                             sessionDisposals w' @ [sessionObject (disposable (heap w ! r))]\<rparr>
               in case disposeThrows (disposable (heap w ! r)) of
                    None \<Rightarrow> (Inr (), w'')
                  | Some e \<Rightarrow> (Inl (External e), w''))
            else (Inr (), w'))
      else (Inr (), w))"

subsection \<open>TypeHierarchyModel\<close>

text \<open>The private constructor: \<^verbatim>\<open>this.root = roots[0]\<close>, which is \<^verbatim>\<open>undefined\<close> on an
  empty array.\<close>

definition TypeHierarchyModel_new ::
  "string \<Rightarrow> TypeHierarchyProvider \<Rightarrow> TypeHierarchyItem list \<Rightarrow> nat \<Rightarrow> TypeHierarchyModel" where
  "TypeHierarchyModel_new i p rs r =
     \<lparr>id' = i, provider = p, roots = rs, ref = r,
      root = (case rs of [] \<Rightarrow> None | c # _ \<Rightarrow> Some c)\<rparr>"

text \<open>
  \<^verbatim>\<open>create\<close>: the parameter \<open>ordered\<close> is \<^verbatim>\<open>TypeHierarchyProviderRegistry.ordered\<close>,
  the providers matching a document, best first. The result is \<open>Inl\<close> when the promise
  rejects, \<open>Inr None\<close> when it resolves to \<^verbatim>\<open>undefined\<close>.
\<close>

definition TypeHierarchyModel_create ::
  "(ITextModel \<Rightarrow> TypeHierarchyProvider list) \<Rightarrow> ITextModel \<Rightarrow> IPosition \<Rightarrow> CancellationToken
     \<Rightarrow> world \<Rightarrow> (error + TypeHierarchyModel option) \<times> world" where
  "TypeHierarchyModel_create ordered model position token w =
     (case ordered model of
        [] \<Rightarrow> (Inr None, w)
      | prov # _ \<Rightarrow>
          (let w1 = w\<lparr>providerCalls := providerCalls w @ [PrepareCall model position token]\<rparr>
           in case prepareTypeHierarchy prov model position token of
                Throws e \<Rightarrow> (Inl (External e), w1)
              | Rejects e \<Rightarrow> (Inl (External e), w1)
              | Resolves None \<Rightarrow> (Inr None, w1)
              | Resolves (Some session) \<Rightarrow>
                  (let (r, w2) = new_RefCountedDisposable session w1
                   in (Inr (Some (TypeHierarchyModel_new
                                    (foldl (\<lambda>p c. p @ sessionId c) [] (sessionRoots session))
                                    prov (sessionRoots session) r)),
                       w2))))"

definition TypeHierarchyModel_dispose ::
  "TypeHierarchyModel \<Rightarrow> world \<Rightarrow> (error + unit) \<times> world" where
  "TypeHierarchyModel_dispose this w = release (ref this) w"

definition TypeHierarchyModel_fork ::
  "TypeHierarchyModel \<Rightarrow> TypeHierarchyItem \<Rightarrow> world \<Rightarrow> TypeHierarchyModel \<times> world" where
  "TypeHierarchyModel_fork that item w =
     (let (r, w') = acquire (ref that) w
      in (TypeHierarchyModel_new (id' that) (provider that) [item] r, w'))"

text \<open>
  Modelled from the spec: \<^verbatim>\<open>isNonEmptyArray\<close> of \<^verbatim>\<open>vs/base/common/arrays\<close> is not
  among the sources. The spec (4.1, 8): an empty result and a result that is no array
  both count as no result.
\<close>

definition isNonEmptyArray :: "jsval \<Rightarrow> bool" where
  "isNonEmptyArray obj = (case obj of JArray (x # xs) \<Rightarrow> True | _ \<Rightarrow> False)"

text \<open>
  Modelled from the spec: \<^verbatim>\<open>onUnexpectedExternalError\<close> of \<^verbatim>\<open>vs/base/common/errors\<close>
  is not among the sources. The spec (4.1, 7): the error is reported to an external
  unexpected-error sink, here a log.
\<close>

definition onUnexpectedExternalError :: "jsval \<Rightarrow> world \<Rightarrow> world" where
  "onUnexpectedExternalError e w = w\<lparr>unexpectedExternalErrors := unexpectedExternalErrors w @ [e]\<rparr>"

definition TypeHierarchyModel_provideSupertypes ::
  "TypeHierarchyModel \<Rightarrow> jsval \<Rightarrow> CancellationToken \<Rightarrow> world \<Rightarrow> (error + jsval) \<times> world" where
  "TypeHierarchyModel_provideSupertypes this item token w =
     (let w1 = w\<lparr>providerCalls := providerCalls w @ [SupertypesCall item token]\<rparr>
      in case provideSupertypes (provider this) item token of
           Throws e \<Rightarrow> (Inr (JArray []), onUnexpectedExternalError e w1)
         | Rejects e \<Rightarrow> (Inr (JArray []), onUnexpectedExternalError e w1)
         | Resolves result \<Rightarrow>
             (if isNonEmptyArray result then (Inr result, w1) else (Inr (JArray []), w1)))"

definition TypeHierarchyModel_provideSubtypes ::
  "TypeHierarchyModel \<Rightarrow> jsval \<Rightarrow> CancellationToken \<Rightarrow> world \<Rightarrow> (error + jsval) \<times> world" where
  "TypeHierarchyModel_provideSubtypes this item token w =
     (let w1 = w\<lparr>providerCalls := providerCalls w @ [SubtypesCall item token]\<rparr>
      in case provideSubtypes (provider this) item token of
           Throws e \<Rightarrow> (Inr (JArray []), onUnexpectedExternalError e w1)
         | Rejects e \<Rightarrow> (Inr (JArray []), onUnexpectedExternalError e w1)
         | Resolves result \<Rightarrow>
             (if isNonEmptyArray result then (Inr result, w1) else (Inr (JArray []), w1)))"

subsection \<open>The map of models\<close>

text \<open>
  A \<^verbatim>\<open>Map\<close> of the language keeps its entries in insertion order: \<^verbatim>\<open>set\<close> on a key
  already present replaces the value where the entry stands, on a new key it appends.
  The keys of \<^verbatim>\<open>_models\<close> are strings, so \<^verbatim>\<open>get\<close> on any other value misses.
\<close>

fun Map_set :: "string \<Rightarrow> 'v \<Rightarrow> (string \<times> 'v) list \<Rightarrow> (string \<times> 'v) list" where
  "Map_set k v [] = [(k, v)]"
| "Map_set k v ((k', v') # es) = (if k' = k then (k, v) # es else (k', v') # Map_set k v es)"

definition Map_get :: "(string \<times> 'v) list \<Rightarrow> jsval \<Rightarrow> 'v option" where
  "Map_get es k = (case k of JString s \<Rightarrow> map_of es s | _ \<Rightarrow> None)"

definition Map_delete :: "string \<Rightarrow> (string \<times> 'v) list \<Rightarrow> (string \<times> 'v) list" where
  "Map_delete k es = filter (\<lambda>e. fst e \<noteq> k) es"

definition Map_size :: "(string \<times> 'v) list \<Rightarrow> nat" where
  "Map_size es = length es"

subsection \<open>API command support\<close>

text \<open>
  The external collaborators of the commands, none of them among the sources, are taken
  as parameters: the provider registry, the shape checks \<^verbatim>\<open>URI.isUri\<close>,
  \<^verbatim>\<open>Position.isIPosition\<close> and \<^verbatim>\<open>Range.isIRange\<close>, the model service and the text
  model service.
\<close>

text \<open>A text model reference is released by its \<^verbatim>\<open>dispose()\<close>, which returns or throws.\<close>

record ModelReference =
  textEditorModel :: ITextModel
  referenceObject :: nat
  referenceDisposeThrows :: "jsval option"

record host =
  ordered :: "ITextModel \<Rightarrow> TypeHierarchyProvider list"
  isUri :: "jsval \<Rightarrow> bool"
  isIPosition :: "jsval \<Rightarrow> bool"
  isIRange :: "jsval \<Rightarrow> bool"
  getModel :: "jsval \<Rightarrow> ITextModel option"
  createModelReference :: "jsval \<Rightarrow> ModelReference ProviderResult"

text \<open>
  Modelled from the spec: \<^verbatim>\<open>assertType\<close> (\<^verbatim>\<open>vs/base/common/types\<close>) is not among the
  sources. The spec (4.4, 7): malformed input fails fast with a type-validation error.
\<close>

definition assertType :: "bool \<Rightarrow> error + unit" where
  "assertType condition = (if condition then Inr () else Inl UnexpectedType)"

text \<open>Reading \<^verbatim>\<open>args[i]\<close> of the rest parameter, as the destructuring does.\<close>

definition arg :: "jsval list \<Rightarrow> nat \<Rightarrow> jsval" where
  "arg args i = (if i < length args then args ! i else JUndefined)"

text \<open>
  The \<^verbatim>\<open>forEach\<close> of lines 139 to 144, over the entries in insertion order. The callback
  deletes no entry but the one it visits and adds none, so the entries visited are the
  entries the map had when the scan began. The callback calls \<^verbatim>\<open>value.dispose()\<close> before
  \<^verbatim>\<open>_models.delete(key)\<close> and catches nothing: when the dispose throws, the entry is not
  deleted, no further entry is visited and the scan throws the same value.
\<close>

fun evictionScan ::
  "(string \<times> TypeHierarchyModel) list \<Rightarrow> world \<Rightarrow> (error + unit) \<times> world" where
  "evictionScan [] w = (Inr (), w)"
| "evictionScan ((key, value) # rest) w =
     (if Map_size (models w) > 10
      then (case TypeHierarchyModel_dispose value w of
              (Inl e, w1) \<Rightarrow> (Inl e, w1)
            | (Inr _, w1) \<Rightarrow> evictionScan rest (w1\<lparr>models := Map_delete key (models w1)\<rparr>))
      else evictionScan rest w)"

text \<open>Lines 138 to 144: \<^verbatim>\<open>_models.set(model.id, model)\<close>, then the scan.\<close>

definition registerModel :: "TypeHierarchyModel \<Rightarrow> world \<Rightarrow> (error + unit) \<times> world" where
  "registerModel model w =
     (let w1 = w\<lparr>models := Map_set (id' model) model (models w)\<rparr>
      in evictionScan (models w1) w1)"

text \<open>Lines 122 to 130: the open text model of the resource, or a reference to a new one.\<close>

definition resolveTextModel :: "host \<Rightarrow> jsval \<Rightarrow> error + ITextModel \<times> ModelReference option" where
  "resolveTextModel h resource =
     (case getModel h resource of
        Some textModel \<Rightarrow> Inr (textModel, None)
      | None \<Rightarrow>
          (case createModelReference h resource of
             Throws e \<Rightarrow> Inl (External e)
           | Rejects e \<Rightarrow> Inl (External e)
           | Resolves result \<Rightarrow> Inr (textEditorModel result, Some result)))"

text \<open>
  Lines 147 to 149, the \<^verbatim>\<open>finally\<close> block: the reference, when there is one, is
  released whatever the \<^verbatim>\<open>try\<close> block produced, and when its \<^verbatim>\<open>dispose()\<close> throws, the
  command rejects with that value instead.
\<close>

definition finallyDispose ::
  "ModelReference option \<Rightarrow> (error + 'a) \<Rightarrow> world \<Rightarrow> (error + 'a) \<times> world" where
  "finallyDispose textModelReference result w =
     (case textModelReference of
        None \<Rightarrow> (result, w)
      | Some r \<Rightarrow>
          (let w' = w\<lparr>releasedReferences := releasedReferences w @ [referenceObject r]\<rparr>
           in case referenceDisposeThrows r of
                None \<Rightarrow> (result, w')
              | Some e \<Rightarrow> (Inl (External e), w')))"

definition executePrepareTypeHierarchy ::
  "host \<Rightarrow> jsval list \<Rightarrow> world \<Rightarrow> (error + TypeHierarchyItem option list) \<times> world" where
  "executePrepareTypeHierarchy h args w =
     (let resource = arg args 0; position = arg args 1
      in case assertType (isUri h resource) of
           Inl e \<Rightarrow> (Inl e, w)
         | Inr _ \<Rightarrow>
        (case assertType (isIPosition h position) of
           Inl e \<Rightarrow> (Inl e, w)
         | Inr _ \<Rightarrow>
        (case resolveTextModel h resource of
           Inl e \<Rightarrow> (Inl e, w)
         | Inr (textModel, textModelReference) \<Rightarrow>
             (let (result, w1) =
                    (case TypeHierarchyModel_create (ordered h) textModel position
                            CancellationToken_None w of
                       (Inl e, w') \<Rightarrow> (Inl e, w')
                     | (Inr None, w') \<Rightarrow> (Inr [], w')
                     | (Inr (Some model), w') \<Rightarrow>
                         (case registerModel model w' of
                            (Inl e, w'') \<Rightarrow> (Inl e, w'')
                          | (Inr _, w'') \<Rightarrow> (Inr [root model], w'')))
              in finallyDispose textModelReference result w1))))"

text \<open>
  \<^verbatim>\<open>isTypeHierarchyItemDto\<close>: \<^verbatim>\<open>typeof null\<close> is \<^verbatim>\<open>'object'\<close>, so on \<^verbatim>\<open>null\<close> the
  read of \<^verbatim>\<open>item.name\<close> raises a TypeError.
\<close>

definition isTypeHierarchyItemDto :: "host \<Rightarrow> jsval \<Rightarrow> error + bool" where
  "isTypeHierarchyItemDto h obj =
     (if typeof obj \<noteq> ''object'' then Inr False
      else if obj = JNull then Inl TypeError
      else Inr (typeof (getProperty obj ''name'') = ''string''
              \<and> typeof (getProperty obj ''kind'') = ''number''
              \<and> isUri h (getProperty obj ''uri'')
              \<and> isIRange h (getProperty obj ''range'')
              \<and> isIRange h (getProperty obj ''selectionRange'')))"

definition executeProvideSupertypes ::
  "host \<Rightarrow> jsval list \<Rightarrow> world \<Rightarrow> (error + jsval) \<times> world" where
  "executeProvideSupertypes h args w =
     (let item = arg args 0
      in case isTypeHierarchyItemDto h item of
           Inl e \<Rightarrow> (Inl e, w)
         | Inr ok \<Rightarrow>
        (case assertType ok of
           Inl e \<Rightarrow> (Inl e, w)
         | Inr _ \<Rightarrow>
        (case Map_get (models w) (getProperty item ''_sessionId'') of
           None \<Rightarrow> (Inr JUndefined, w)
         | Some model \<Rightarrow>
             TypeHierarchyModel_provideSupertypes model item CancellationToken_None w)))"

definition executeProvideSubtypes ::
  "host \<Rightarrow> jsval list \<Rightarrow> world \<Rightarrow> (error + jsval) \<times> world" where
  "executeProvideSubtypes h args w =
     (let item = arg args 0
      in case isTypeHierarchyItemDto h item of
           Inl e \<Rightarrow> (Inl e, w)
         | Inr ok \<Rightarrow>
        (case assertType ok of
           Inl e \<Rightarrow> (Inl e, w)
         | Inr _ \<Rightarrow>
        (case Map_get (models w) (getProperty item ''_sessionId'') of
           None \<Rightarrow> (Inr JUndefined, w)
         | Some model \<Rightarrow>
             TypeHierarchyModel_provideSubtypes model item CancellationToken_None w)))"

subsection \<open>Sequences of calls\<close>

text \<open>
  Forking a model once for each node of a list; disposing a list of models, each by its
  own owner, so that a dispose that throws does not keep the later ones from running;
  and inserting a list of models into the registry, one command after the other.
\<close>

fun forkAll ::
  "TypeHierarchyModel \<Rightarrow> TypeHierarchyItem list \<Rightarrow> world \<Rightarrow> TypeHierarchyModel list \<times> world" where
  "forkAll m [] w = ([], w)"
| "forkAll m (n # ns) w =
     (let (f, w1) = TypeHierarchyModel_fork m n w;
          (fs, w2) = forkAll m ns w1
      in (f # fs, w2))"

fun disposeAll :: "TypeHierarchyModel list \<Rightarrow> world \<Rightarrow> world" where
  "disposeAll [] w = w"
| "disposeAll (m # ms) w = disposeAll ms (snd (TypeHierarchyModel_dispose m w))"


text \<open>A sequence of prepare requests, each with its own arguments, whatever each returns.\<close>

fun prepareAll :: "host \<Rightarrow> jsval list list \<Rightarrow> world \<Rightarrow> world" where
  "prepareAll h [] w = w"
| "prepareAll h (args # rest) w = prepareAll h rest (snd (executePrepareTypeHierarchy h args w))"

subsection \<open>Example values\<close>

definition range0 :: IRange where
  "range0 = \<lparr>startLineNumber = 0, startColumn = 0, endLineNumber = 1, endColumn = 0\<rparr>"

definition nodeA :: TypeHierarchyItem where
  "nodeA = \<lparr>sessionId = ''S1'', itemId = ''A'', name = ''A'', kind = 4, detail = None,
            uri = ''file:///a.ts'', range' = range0, selectionRange = range0, tags = None\<rparr>"

definition nodeB :: TypeHierarchyItem where
  "nodeB = \<lparr>sessionId = ''S1'', itemId = ''B'', name = ''B'', kind = 4, detail = None,
            uri = ''file:///a.ts'', range' = range0, selectionRange = range0, tags = None\<rparr>"

text \<open>A provider that answers every prepare with one session of one root, whatever the
  token says, and a provider whose session has two roots.\<close>

definition provider1 :: TypeHierarchyProvider where
  "provider1 =
     \<lparr>prepareTypeHierarchy =
        (\<lambda>m p t. Resolves (Some \<lparr>sessionRoots = [nodeA], sessionObject = 7, disposeThrows = None\<rparr>)),
      provideSupertypes = (\<lambda>i t. Resolves (JArray [JString ''B''])),
      provideSubtypes = (\<lambda>i t. Throws (JString ''failure''))\<rparr>"

definition provider2 :: TypeHierarchyProvider where
  "provider2 =
     \<lparr>prepareTypeHierarchy =
        (\<lambda>m p t. Resolves (Some \<lparr>sessionRoots = [nodeA, nodeB], sessionObject = 8,
                                  disposeThrows = None\<rparr>)),
      provideSupertypes = (\<lambda>i t. Resolves JUndefined),
      provideSubtypes = (\<lambda>i t. Rejects (JString ''failure''))\<rparr>"

text \<open>The state of the module when it is loaded: \<^verbatim>\<open>_models\<close> is empty.\<close>

definition world0 :: world where
  "world0 = \<lparr>heap = [], sessionDisposals = [], unexpectedExternalErrors = [],
             providerCalls = [], models = [], releasedReferences = []\<rparr>"

text \<open>A registry holding ten models, each with a handle of its own, and an eleventh model.\<close>

definition modelK :: "string \<Rightarrow> nat \<Rightarrow> TypeHierarchyModel" where
  "modelK k r = TypeHierarchyModel_new k provider1 [nodeA] r"

definition sessionK :: "nat \<Rightarrow> TypeHierarchySession" where
  "sessionK s = \<lparr>sessionRoots = [nodeA], sessionObject = s, disposeThrows = None\<rparr>"

definition worldFull :: world where
  "worldFull =
     world0\<lparr>heap := map (\<lambda>s. \<lparr>counter = 1, disposable = sessionK s\<rparr>)
                      [0, 1, 2, 3, 4, 5, 6, 7, 8, 9, 10],
            models := map (\<lambda>(k, r). (k, modelK k r))
              [(''s0'', 0), (''s1'', 1), (''s2'', 2), (''s3'', 3), (''s4'', 4),
               (''s5'', 5), (''s6'', 6), (''s7'', 7), (''s8'', 8), (''s9'', 9)]\<rparr>"

text \<open>Collaborators for the examples: every resource has an open text model.\<close>

definition uriA :: jsval where
  "uriA = JObject [(''scheme'', JString ''file''), (''path'', JString ''/a.ts'')]"

definition positionA :: jsval where
  "positionA = JObject [(''lineNumber'', JNumber 1), (''column'', JNumber 1)]"

definition rangeA :: jsval where
  "rangeA = JObject [(''startLineNumber'', JNumber 0), (''startColumn'', JNumber 0),
                     (''endLineNumber'', JNumber 1), (''endColumn'', JNumber 0)]"

definition host1 :: host where
  "host1 =
     \<lparr>ordered = (\<lambda>m. [provider1]),
      isUri = (\<lambda>v. typeof (getProperty v ''scheme'') = ''string''),
      isIPosition = (\<lambda>v. typeof (getProperty v ''lineNumber'') = ''number''
                        \<and> typeof (getProperty v ''column'') = ''number''),
      isIRange = (\<lambda>v. typeof (getProperty v ''startLineNumber'') = ''number''
                     \<and> typeof (getProperty v ''startColumn'') = ''number''
                     \<and> typeof (getProperty v ''endLineNumber'') = ''number''
                     \<and> typeof (getProperty v ''endColumn'') = ''number''),
      getModel = (\<lambda>r. Some 0),
      createModelReference = (\<lambda>r. Rejects JUndefined)\<rparr>"


text \<open>
  Twelve documents and a provider that answers the prepare call for document \<open>m\<close> with a
  session of its own, of one root with the session id \<^verbatim>\<open>s\<close>\<open>m\<close>; the \<^verbatim>\<open>dispose()\<close> of
  the session of document 0 throws. \<open>worldTen\<close> is the state after one prepare request
  for each of the first ten documents.
\<close>

definition documents :: "(string \<times> ITextModel) list" where
  "documents =
     [(''/0.ts'', 0), (''/1.ts'', 1), (''/2.ts'', 2), (''/3.ts'', 3), (''/4.ts'', 4), (''/5.ts'', 5),
      (''/6.ts'', 6), (''/7.ts'', 7), (''/8.ts'', 8), (''/9.ts'', 9), (''/10.ts'', 10),
      (''/11.ts'', 11)]"

definition uriOf :: "string \<Rightarrow> jsval" where
  "uriOf path = JObject [(''scheme'', JString ''file''), (''path'', JString path)]"

definition sessionIds :: "string list" where
  "sessionIds = [''s0'', ''s1'', ''s2'', ''s3'', ''s4'', ''s5'', ''s6'', ''s7'', ''s8'', ''s9'',
                 ''s10'', ''s11'']"

definition session4 :: "ITextModel \<Rightarrow> TypeHierarchySession" where
  "session4 m =
     \<lparr>sessionRoots = [nodeA\<lparr>sessionId := (if m < length sessionIds then sessionIds ! m else ''s'')\<rparr>],
      sessionObject = m,
      disposeThrows = (if m = 0 then Some (JString ''failure'') else None)\<rparr>"

definition provider4 :: TypeHierarchyProvider where
  "provider4 =
     \<lparr>prepareTypeHierarchy = (\<lambda>m p t. Resolves (Some (session4 m))),
      provideSupertypes = (\<lambda>i t. Resolves (JArray [])),
      provideSubtypes = (\<lambda>i t. Resolves (JArray []))\<rparr>"

definition host4 :: host where
  "host4 = host1\<lparr>ordered := (\<lambda>m. [provider4]),
                  getModel := (\<lambda>r. case getProperty r ''path'' of
                                       JString s \<Rightarrow> map_of documents s
                                     | _ \<Rightarrow> None)\<rparr>"

definition requests10 :: "jsval list list" where
  "requests10 = map (\<lambda>path. [uriOf path, positionA])
     [''/0.ts'', ''/1.ts'', ''/2.ts'', ''/3.ts'', ''/4.ts'', ''/5.ts'', ''/6.ts'', ''/7.ts'',
      ''/8.ts'', ''/9.ts'']"

definition model4 :: "ITextModel \<Rightarrow> TypeHierarchyModel" where
  "model4 m = TypeHierarchyModel_new (sessionIds ! m) provider4 (sessionRoots (session4 m)) m"

definition worldTen :: world where
  "worldTen =
     world0\<lparr>heap := map (\<lambda>m. \<lparr>counter = 1, disposable = session4 m\<rparr>) [0, 1, 2, 3, 4, 5, 6, 7, 8, 9],
            providerCalls := map (\<lambda>m. PrepareCall m positionA CancellationToken_None)
                               [0, 1, 2, 3, 4, 5, 6, 7, 8, 9],
            models := map (\<lambda>m. (sessionIds ! m, model4 m)) [0, 1, 2, 3, 4, 5, 6, 7, 8, 9]\<rparr>"

text \<open>A provider that honours a cancelled token by yielding no session.\<close>

definition provider3 :: TypeHierarchyProvider where
  "provider3 =
     \<lparr>prepareTypeHierarchy =
        (\<lambda>m p t. if isCancellationRequested t then Resolves None
                  else Resolves (Some \<lparr>sessionRoots = [nodeA], sessionObject = 9,
                                         disposeThrows = None\<rparr>)),
      provideSupertypes = (\<lambda>i t. Resolves (JArray [])),
      provideSubtypes = (\<lambda>i t. Resolves (JArray []))\<rparr>"

text \<open>A serialized node with every field, and one without \<^verbatim>\<open>_sessionId\<close> and
  \<^verbatim>\<open>_itemId\<close>.\<close>

definition itemA :: jsval where
  "itemA = JObject [(''_sessionId'', JString ''S1''), (''_itemId'', JString ''A''),
                    (''name'', JString ''A''), (''kind'', JNumber 4), (''uri'', uriA),
                    (''range'', rangeA), (''selectionRange'', rangeA)]"

definition itemNoSession :: jsval where
  "itemNoSession = JObject [(''name'', JString ''A''), (''kind'', JNumber 4), (''uri'', uriA),
                            (''range'', rangeA), (''selectionRange'', rangeA)]"

section \<open>Properties\<close>

subsection \<open>Handles: creation, fork and disposal\<close>

lemma create_handle:
  assumes "TypeHierarchyModel_create reg doc pos tok w0 = (Inr (Some m), w)"
  shows "ref m < length (heap w) \<and> counter (heap w ! ref m) = 1
    \<and> (\<exists>session. prepareTypeHierarchy (provider m) doc pos tok = Resolves (Some session)
          \<and> disposable (heap w ! ref m) = session)"
  using assms
  by (auto simp: TypeHierarchyModel_create_def new_RefCountedDisposable_def
      TypeHierarchyModel_new_def Let_def
      split: list.splits ProviderResult.splits option.splits)

lemma fork_effect:
  assumes "r < length (heap w)" "ref m = r"
  shows "TypeHierarchyModel_fork m n w =
     (TypeHierarchyModel_new (id' m) (provider m) [n] r,
      w\<lparr>heap := (heap w)[r := (heap w ! r)\<lparr>counter := counter (heap w ! r) + 1\<rparr>]\<rparr>)"
  using assms by (simp add: TypeHierarchyModel_fork_def acquire_def)

lemma forkAll_effect:
  assumes "ref m < length (heap w)" "forkAll m ns w = (fs, w1)"
  shows "length fs = length ns \<and> (\<forall>f \<in> set fs. ref f = ref m)
     \<and> length (heap w1) = length (heap w)
     \<and> counter (heap w1 ! ref m) = counter (heap w ! ref m) + int (length ns)
     \<and> disposable (heap w1 ! ref m) = disposable (heap w ! ref m)
     \<and> sessionDisposals w1 = sessionDisposals w"
  using assms
proof (induction ns arbitrary: w fs w1)
  case Nil
  then show ?case by simp
next
  case (Cons n ns)
  let ?r = "ref m"
  let ?w' = "w\<lparr>heap := (heap w)[?r := (heap w ! ?r)\<lparr>counter := counter (heap w ! ?r) + 1\<rparr>]\<rparr>"
  have f: "TypeHierarchyModel_fork m n w = (TypeHierarchyModel_new (id' m) (provider m) [n] ?r, ?w')"
    using Cons.prems(1) by (simp add: fork_effect)
  obtain gs w2 where g: "forkAll m ns ?w' = (gs, w2)" by (cases "forkAll m ns ?w'")
  have fs: "fs = TypeHierarchyModel_new (id' m) (provider m) [n] ?r # gs" and w1: "w1 = w2"
    using Cons.prems(2) f g by simp_all
  have "?r < length (heap ?w')" using Cons.prems(1) by simp
  from Cons.IH [OF this g] show ?case
    using Cons.prems(1) by (simp add: fs w1 TypeHierarchyModel_new_def)
qed

lemma release_effect:
  assumes "r < length (heap w)"
  shows "length (heap (snd (release r w))) = length (heap w)
     \<and> counter (heap (snd (release r w)) ! r) = counter (heap w ! r) - 1
     \<and> disposable (heap (snd (release r w)) ! r) = disposable (heap w ! r)
     \<and> sessionDisposals (snd (release r w)) =
         sessionDisposals w @
           (if counter (heap w ! r) = 1 then [sessionObject (disposable (heap w ! r))] else [])"
  using assms by (simp add: release_def Let_def split: option.splits)

lemma disposeAll_effect:
  assumes "r < length (heap w)" "\<forall>d \<in> set ds. ref d = r"
  shows "length (heap (disposeAll ds w)) = length (heap w)
     \<and> counter (heap (disposeAll ds w) ! r) = counter (heap w ! r) - int (length ds)
     \<and> disposable (heap (disposeAll ds w) ! r) = disposable (heap w ! r)
     \<and> sessionDisposals (disposeAll ds w) =
         sessionDisposals w @
           (if 1 \<le> counter (heap w ! r) \<and> counter (heap w ! r) \<le> int (length ds)
            then [sessionObject (disposable (heap w ! r))] else [])"
  using assms
proof (induction ds arbitrary: w)
  case Nil
  then show ?case by simp
next
  case (Cons d ds)
  let ?w' = "snd (release r w)"
  have d: "snd (TypeHierarchyModel_dispose d w) = ?w'"
    using Cons.prems(2) by (simp add: TypeHierarchyModel_dispose_def)
  note e = release_effect [OF Cons.prems(1)]
  have l: "r < length (heap ?w')" using e Cons.prems(1) by simp
  have a: "\<forall>d \<in> set ds. ref d = r" using Cons.prems(2) by simp
  from Cons.IH [OF l a] e show ?case
    by (simp add: d)
qed

text \<open>
  C1. Let \<open>m\<close> be a model that \<open>TypeHierarchyModel.create\<close> returned. Its handle wraps the
  session the provider yielded. Forking \<open>m\<close> at any node, disposing the fork and then
  disposing \<open>m\<close> invokes \<^verbatim>\<open>dispose()\<close> on that session exactly once, and only at the
  second disposal. The same holds for any number of forks of \<open>m\<close>: disposing the forks and
  \<open>m\<close>, each once and in any order, invokes the session's \<^verbatim>\<open>dispose()\<close> exactly once,
  and not before the last of them is disposed. Whether that one invocation returns or
  throws makes no difference to the count.
\<close>

theorem fork_dispose_once:
  assumes "TypeHierarchyModel_create reg doc pos tok w0 = (Inr (Some m), w)"
  shows "(\<exists>session. prepareTypeHierarchy (provider m) doc pos tok = Resolves (Some session)
            \<and> disposable (heap w ! ref m) = session)
     \<and> (\<forall>n. case TypeHierarchyModel_fork m n w of (f, w1) \<Rightarrow>
          sessionDisposals (snd (TypeHierarchyModel_dispose f w1)) = sessionDisposals w
        \<and> sessionDisposals
            (snd (TypeHierarchyModel_dispose m (snd (TypeHierarchyModel_dispose f w1)))) =
            sessionDisposals w @ [sessionObject (disposable (heap w ! ref m))])
     \<and> (\<forall>ns ds. case forkAll m ns w of (fs, w1) \<Rightarrow>
          mset ds = mset (m # fs) \<longrightarrow>
            sessionDisposals (disposeAll ds w1) =
              sessionDisposals w @ [sessionObject (disposable (heap w ! ref m))]
          \<and> (\<forall>j < length ds. sessionDisposals (disposeAll (take j ds) w1) = sessionDisposals w))"
proof -
  let ?r = "ref m"
  let ?s = "sessionObject (disposable (heap w ! ?r))"
  note h = create_handle [OF assms]
  have r: "?r < length (heap w)" and c: "counter (heap w ! ?r) = 1" using h by simp_all
  have general: "sessionDisposals (disposeAll ds w1) = sessionDisposals w @ [?s]
          \<and> (\<forall>j < length ds. sessionDisposals (disposeAll (take j ds) w1) = sessionDisposals w)"
    if fa: "forkAll m ns w = (fs, w1)" and p: "mset ds = mset (m # fs)" for ns fs w1 ds
  proof -
    note fe = forkAll_effect [OF r fa]
    have r1: "?r < length (heap w1)" using fe r by simp
    have c1: "counter (heap w1 ! ?r) = 1 + int (length ns)" using fe c by simp
    have len: "length ds = Suc (length ns)"
      using p fe by (metis length_Cons size_mset)
    have "set ds = set (m # fs)" using p by (metis set_mset_mset)
    then have all: "\<forall>d \<in> set ds. ref d = ?r" using fe by auto
    have 1: "sessionDisposals (disposeAll ds w1) = sessionDisposals w @ [?s]"
      using disposeAll_effect [OF r1 all] c1 len fe by simp
    have 2: "sessionDisposals (disposeAll (take j ds) w1) = sessionDisposals w" if "j < length ds" for j
    proof -
      have "\<forall>d \<in> set (take j ds). ref d = ?r" using all by (meson in_set_takeD)
      from disposeAll_effect [OF r1 this] c1 len fe that show ?thesis by simp
    qed
    from 1 2 show ?thesis by blast
  qed
  have two: "sessionDisposals (snd (TypeHierarchyModel_dispose f w1)) = sessionDisposals w
        \<and> sessionDisposals
            (snd (TypeHierarchyModel_dispose m (snd (TypeHierarchyModel_dispose f w1)))) =
            sessionDisposals w @ [?s]"
    if f: "TypeHierarchyModel_fork m n w = (f, w1)" for n f w1
  proof -
    have fa: "forkAll m [n] w = ([f], w1)" using f by simp
    have p: "mset [f, m] = mset (m # [f])" by simp
    from general [OF fa p] have
      a: "sessionDisposals (disposeAll [f, m] w1) = sessionDisposals w @ [?s]"
      and b: "\<forall>j < length [f, m]. sessionDisposals (disposeAll (take j [f, m]) w1) = sessionDisposals w"
      by blast+
    have "Suc 0 < length [f, m]" by simp
    with b have "sessionDisposals (disposeAll (take (Suc 0) [f, m]) w1) = sessionDisposals w"
      by blast
    with a show ?thesis by simp
  qed
  have A: "\<forall>n. case TypeHierarchyModel_fork m n w of (f, w1) \<Rightarrow>
          sessionDisposals (snd (TypeHierarchyModel_dispose f w1)) = sessionDisposals w
        \<and> sessionDisposals
            (snd (TypeHierarchyModel_dispose m (snd (TypeHierarchyModel_dispose f w1)))) =
            sessionDisposals w @ [sessionObject (disposable (heap w ! ref m))]"
    using two by (simp split: prod.split)
  have B: "\<forall>ns ds. case forkAll m ns w of (fs, w1) \<Rightarrow>
          mset ds = mset (m # fs) \<longrightarrow>
            sessionDisposals (disposeAll ds w1) =
              sessionDisposals w @ [sessionObject (disposable (heap w ! ref m))]
          \<and> (\<forall>j < length ds. sessionDisposals (disposeAll (take j ds) w1) = sessionDisposals w)"
    using general by (simp split: prod.split)
  from h A B show ?thesis by blast
qed

theorem fork_dispose_once_witness:
  "TypeHierarchyModel_create (\<lambda>d. [provider1]) 0 JNull CancellationToken_None world0 =
     (Inr (Some (TypeHierarchyModel_new ''S1'' provider1 [nodeA] 0)),
      world0\<lparr>heap := [\<lparr>counter = 1, disposable = sessionK 7\<rparr>],
             providerCalls := [PrepareCall 0 JNull CancellationToken_None]\<rparr>)
   \<and> (\<forall>n. case TypeHierarchyModel_fork (TypeHierarchyModel_new ''S1'' provider1 [nodeA] 0) n
               (world0\<lparr>heap := [\<lparr>counter = 1, disposable = sessionK 7\<rparr>],
                       providerCalls := [PrepareCall 0 JNull CancellationToken_None]\<rparr>) of
            (f, w1) \<Rightarrow>
              sessionDisposals (snd (TypeHierarchyModel_dispose f w1)) = []
            \<and> sessionDisposals
                (snd (TypeHierarchyModel_dispose (TypeHierarchyModel_new ''S1'' provider1 [nodeA] 0)
                   (snd (TypeHierarchyModel_dispose f w1)))) = [7])"
proof -
  let ?m = "TypeHierarchyModel_new ''S1'' provider1 [nodeA] 0"
  let ?w = "world0\<lparr>heap := [\<lparr>counter = 1, disposable = sessionK 7\<rparr>],
             providerCalls := [PrepareCall 0 JNull CancellationToken_None]\<rparr>"
  have h: "TypeHierarchyModel_create (\<lambda>d. [provider1]) 0 JNull CancellationToken_None world0 =
     (Inr (Some ?m), ?w)"
    by (simp add: TypeHierarchyModel_create_def provider1_def new_RefCountedDisposable_def
        world0_def nodeA_def sessionK_def)
  have s: "sessionDisposals ?w = []"
    and d: "sessionObject (disposable (heap ?w ! ref ?m)) = 7"
    by (simp_all add: world0_def TypeHierarchyModel_new_def sessionK_def)
  note t = fork_dispose_once [OF h, THEN conjunct2, THEN conjunct1, unfolded s d]
  have "\<forall>n. case TypeHierarchyModel_fork ?m n ?w of
            (f, w1) \<Rightarrow>
              sessionDisposals (snd (TypeHierarchyModel_dispose f w1)) = []
            \<and> sessionDisposals
                (snd (TypeHierarchyModel_dispose ?m (snd (TypeHierarchyModel_dispose f w1)))) = [7]"
    using t by (simp split: prod.splits)
  with h show ?thesis by blast
qed

subsection \<open>The registry and its eviction scan\<close>

lemma Map_set_keys:
  "map fst (Map_set k v es) = (if k \<in> set (map fst es) then map fst es else map fst es @ [k])"
  by (induction es) (simp, fastforce)

lemma distinct_Map_set: "distinct (map fst es) \<Longrightarrow> distinct (map fst (Map_set k v es))"
  by (simp add: Map_set_keys)





lemma Map_delete_head:
  "k \<notin> set (map fst es) \<Longrightarrow> Map_delete k ((k, v) # es) = es"
  by (induction es) (auto simp: Map_delete_def)


lemma release_models: "models (snd (release r w)) = models w"
  by (simp add: release_def Let_def split: option.splits)

lemma dispose_models: "models (snd (TypeHierarchyModel_dispose v w)) = models w"
  by (simp add: TypeHierarchyModel_dispose_def release_models)

lemma evictionScan_small: "Map_size (models w) \<le> 10 \<Longrightarrow> evictionScan es w = (Inr (), w)"
  by (induction es arbitrary: w) auto







lemma evictionScan_bound:
  assumes "distinct (map fst es)" "models w = es" "evictionScan es w = (Inr (), w')"
  shows "models w' = drop (length es - 10) es"
  using assms
proof (induction es arbitrary: w)
  case Nil
  then show ?case by simp
next
  case (Cons e rest)
  obtain key val where e: "e = (key, val)" by (cases e)
  show ?case
  proof (cases "10 < length (e # rest)")
    case False
    then have "Map_size (models w) \<le> 10" using Cons.prems(2) by (simp add: Map_size_def)
    then have "evictionScan (e # rest) w = (Inr (), w)" by (rule evictionScan_small)
    then have "w' = w" using Cons.prems(3) by simp
    moreover have "length (e # rest) - 10 = 0" using False by simp
    ultimately show ?thesis using Cons.prems(2) by simp
  next
    case True
    obtain res w1 where d: "TypeHierarchyModel_dispose val w = (res, w1)"
      by (cases "TypeHierarchyModel_dispose val w")
    have m1: "models w1 = (key, val) # rest"
      using dispose_models [of val w] d Cons.prems(2) e by simp
    have k: "key \<notin> set (map fst rest)" using Cons.prems(1) e by simp
    have s: "10 < Map_size (models w)" using True Cons.prems(2) by (simp add: Map_size_def)
    have res: "res = Inr ()" and step: "evictionScan rest (w1\<lparr>models := rest\<rparr>) = (Inr (), w')"
      using Cons.prems(3) s d e m1 k by (auto simp: Map_delete_head split: sum.splits)
    have dr: "distinct (map fst rest)" using Cons.prems(1) by simp
    have n: "length (e # rest) - 10 = Suc (length rest - 10)" using True by simp
    have "models w' = drop (length rest - 10) rest"
      by (rule Cons.IH [OF dr _ step]) simp
    then show ?thesis unfolding n by simp
  qed
qed

lemma registerModel_bound:
  assumes "distinct (map fst (models w))" "registerModel m w = (Inr (), w')"
  shows "Map_size (models w') \<le> 10
     \<and> models w' = drop (length (Map_set (id' m) m (models w)) - 10)
                     (Map_set (id' m) m (models w))"
proof -
  let ?es = "Map_set (id' m) m (models w)"
  have "distinct (map fst ?es)" using assms(1) by (rule distinct_Map_set)
  then have "models w' = drop (length ?es - 10) ?es"
    by (rule evictionScan_bound [where w = "w\<lparr>models := ?es\<rparr>"])
      (use assms(2) in \<open>simp_all add: registerModel_def\<close>)
  then show ?thesis by (simp add: Map_size_def)
qed

lemmas example_defs =
  executePrepareTypeHierarchy_def host4_def host1_def uriOf_def positionA_def documents_def
  sessionIds_def session4_def model4_def requests10_def worldTen_def
  assertType_def resolveTextModel_def TypeHierarchyModel_create_def provider4_def
  new_RefCountedDisposable_def TypeHierarchyModel_new_def registerModel_def
  world0_def Map_size_def Map_delete_def TypeHierarchyModel_dispose_def
  release_def finallyDispose_def arg_def Map_get_def Let_def

text \<open>
  C2. The bound of 10 entries and the single dispose of each evicted model do not survive
  a session whose \<^verbatim>\<open>dispose()\<close> throws: the scan disposes before it deletes and
  catches nothing. After ten prepare requests from the initial state the registry holds ten models, the
  oldest of them with a session whose \<^verbatim>\<open>dispose()\<close> throws. The eleventh request then
  rejects with the value thrown and leaves eleven entries in the registry, the oldest
  model still among them although it has been disposed and the count of its handle is 0.
  The twelfth request removes that entry with a second dispose of the same model, which
  takes the count of its handle to -1, and evicts the next model as well. (When the scan
  returns, the registry is within the bound and the entries removed are the oldest.)
\<close>

theorem eviction_aborts_when_dispose_throws:
  "prepareAll host4 requests10 world0 = worldTen
   \<and> Map_size (models worldTen) = 10
   \<and> fst (executePrepareTypeHierarchy host4 [uriOf ''/10.ts'', positionA] worldTen) =
       Inl (External (JString ''failure''))
   \<and> Map_size (models (snd (executePrepareTypeHierarchy host4 [uriOf ''/10.ts'', positionA]
                               worldTen))) = 11
   \<and> Map_get (models (snd (executePrepareTypeHierarchy host4 [uriOf ''/10.ts'', positionA]
                             worldTen))) (JString ''s0'') = Some (model4 0)
   \<and> counter (heap (snd (executePrepareTypeHierarchy host4 [uriOf ''/10.ts'', positionA]
                           worldTen)) ! 0) = 0
   \<and> sessionDisposals (snd (executePrepareTypeHierarchy host4 [uriOf ''/10.ts'', positionA]
                              worldTen)) = [0]
   \<and> counter (heap (snd (executePrepareTypeHierarchy host4 [uriOf ''/11.ts'', positionA]
        (snd (executePrepareTypeHierarchy host4 [uriOf ''/10.ts'', positionA] worldTen)))) ! 0)
       = - 1
   \<and> sessionDisposals (snd (executePrepareTypeHierarchy host4 [uriOf ''/11.ts'', positionA]
        (snd (executePrepareTypeHierarchy host4 [uriOf ''/10.ts'', positionA] worldTen))))
       = [0, 1]"
proof -
  have 0: "prepareAll host4 requests10 world0 = worldTen"
    by (simp add: example_defs)
  have 1: "Map_size (models worldTen) = 10"
    by (simp add: example_defs)
  have 2: "fst (executePrepareTypeHierarchy host4 [uriOf ''/10.ts'', positionA] worldTen) =
       Inl (External (JString ''failure''))"
    by (simp add: example_defs)
  have 3: "Map_size (models (snd (executePrepareTypeHierarchy host4 [uriOf ''/10.ts'', positionA]
                               worldTen))) = 11"
    by (simp add: example_defs)
  have 4: "Map_get (models (snd (executePrepareTypeHierarchy host4 [uriOf ''/10.ts'', positionA]
                             worldTen))) (JString ''s0'') = Some (model4 0)"
    by (simp add: example_defs)
  have 5: "counter (heap (snd (executePrepareTypeHierarchy host4 [uriOf ''/10.ts'', positionA]
                           worldTen)) ! 0) = 0"
    by (simp add: example_defs)
  have 6: "sessionDisposals (snd (executePrepareTypeHierarchy host4 [uriOf ''/10.ts'', positionA]
                              worldTen)) = [0]"
    by (simp add: example_defs)
  have 7: "counter (heap (snd (executePrepareTypeHierarchy host4 [uriOf ''/11.ts'', positionA]
        (snd (executePrepareTypeHierarchy host4 [uriOf ''/10.ts'', positionA] worldTen)))) ! 0)
       = - 1"
    by (simp add: example_defs)
  have 8: "sessionDisposals (snd (executePrepareTypeHierarchy host4 [uriOf ''/11.ts'', positionA]
        (snd (executePrepareTypeHierarchy host4 [uriOf ''/10.ts'', positionA] worldTen))))
       = [0, 1]"
    by (simp add: example_defs)
  show ?thesis
    by (rule conjI [OF 0 conjI [OF 1 conjI [OF 2 conjI [OF 3 conjI [OF 4 conjI [OF 5
          conjI [OF 6 conjI [OF 7 8]]]]]]]])
qed

subsection \<open>Insertion under a key already present\<close>








subsection \<open>The prepare command\<close>







subsection \<open>Creation\<close>

lemma foldl_append_concat: "foldl (\<lambda>p c. p @ f c) a xs = a @ concat (map f xs)"
  by (induction xs arbitrary: a) simp_all

text \<open>
  C5, as amended. The id of a model that \<open>create\<close> returns is the concatenation, in root
  order, of the \<^verbatim>\<open>_sessionId\<close> fields of its roots (not of their \<^verbatim>\<open>_itemId\<close> fields).
\<close>

theorem model_id_from_session_ids:
  assumes "TypeHierarchyModel_create reg doc pos tok w = (Inr (Some m), w')"
  shows "id' m = concat (map sessionId (roots m))"
  using assms
  by (auto simp: TypeHierarchyModel_create_def new_RefCountedDisposable_def Let_def
      TypeHierarchyModel_new_def foldl_append_concat
      split: list.splits ProviderResult.splits option.splits)

theorem model_id_from_session_ids_witness:
  "TypeHierarchyModel_create (\<lambda>d. [provider2]) 0 positionA CancellationToken_None world0 =
     (Inr (Some (TypeHierarchyModel_new ''S1S1'' provider2 [nodeA, nodeB] 0)),
      world0\<lparr>heap := [\<lparr>counter = 1, disposable = \<lparr>sessionRoots = [nodeA, nodeB], sessionObject = 8,
                                               disposeThrows = None\<rparr>\<rparr>],
             providerCalls := [PrepareCall 0 positionA CancellationToken_None]\<rparr>)
   \<and> id' (TypeHierarchyModel_new ''S1S1'' provider2 [nodeA, nodeB] 0) =
       concat (map sessionId (roots (TypeHierarchyModel_new ''S1S1'' provider2 [nodeA, nodeB] 0)))"
proof -
  have c: "TypeHierarchyModel_create (\<lambda>d. [provider2]) 0 positionA CancellationToken_None world0 =
     (Inr (Some (TypeHierarchyModel_new ''S1S1'' provider2 [nodeA, nodeB] 0)),
      world0\<lparr>heap := [\<lparr>counter = 1, disposable = \<lparr>sessionRoots = [nodeA, nodeB], sessionObject = 8,
                                               disposeThrows = None\<rparr>\<rparr>],
             providerCalls := [PrepareCall 0 positionA CancellationToken_None]\<rparr>)"
    by (simp add: TypeHierarchyModel_create_def provider2_def
        new_RefCountedDisposable_def world0_def nodeA_def nodeB_def)
  from model_id_from_session_ids [OF c] c show ?thesis by simp
qed

theorem model_id_item_ids_counterexample:
  "fst (TypeHierarchyModel_create (\<lambda>d. [provider1]) 0 positionA CancellationToken_None world0) =
     Inr (Some (TypeHierarchyModel_new ''S1'' provider1 [nodeA] 0))
   \<and> id' (TypeHierarchyModel_new ''S1'' provider1 [nodeA] 0) = ''S1''
   \<and> concat (map itemId (roots (TypeHierarchyModel_new ''S1'' provider1 [nodeA] 0))) = ''A''
   \<and> id' (TypeHierarchyModel_new ''S1'' provider1 [nodeA] 0)
       \<noteq> concat (map itemId (roots (TypeHierarchyModel_new ''S1'' provider1 [nodeA] 0)))"
  by (simp add: TypeHierarchyModel_create_def provider1_def world0_def
      new_RefCountedDisposable_def TypeHierarchyModel_new_def nodeA_def)

text \<open>
  C6. \<open>create\<close> resolves to absent exactly when no provider matches the document or the
  first of the ordered providers answers the prepare call with no session. When that
  provider answers with a session, \<open>create\<close> returns a model of that provider holding all
  the roots of the session, with a handle at an address not allocated before, whose count
  is 1 and which wraps the session. (A prepare call that throws or rejects is neither
  case: there \<open>create\<close> rejects with the error.)
\<close>

theorem create_result:
  "(fst (TypeHierarchyModel_create reg doc pos tok w) = Inr None \<longleftrightarrow>
      reg doc = [] \<or> (\<exists>p ps. reg doc = p # ps \<and> prepareTypeHierarchy p doc pos tok = Resolves None))
   \<and> (\<forall>p ps session.
         reg doc = p # ps \<and> prepareTypeHierarchy p doc pos tok = Resolves (Some session) \<longrightarrow>
           (case TypeHierarchyModel_create reg doc pos tok w of
              (Inr (Some m), w') \<Rightarrow>
                roots m = sessionRoots session \<and> provider m = p
              \<and> ref m = length (heap w)
              \<and> heap w' = heap w @ [\<lparr>counter = 1, disposable = session\<rparr>]
            | _ \<Rightarrow> False))
   \<and> (\<forall>p ps e.
         reg doc = p # ps \<and> prepareTypeHierarchy p doc pos tok \<in> {Throws e, Rejects e} \<longrightarrow>
           fst (TypeHierarchyModel_create reg doc pos tok w) = Inl (External e))"
  by (auto simp: TypeHierarchyModel_create_def new_RefCountedDisposable_def Let_def
      TypeHierarchyModel_new_def
      split: list.splits ProviderResult.splits option.splits)


theorem create_result_witness:
  "fst (TypeHierarchyModel_create (\<lambda>d. []) 0 positionA CancellationToken_None world0) = Inr None
   \<and> fst (TypeHierarchyModel_create (\<lambda>d. [provider3]) 0 positionA CancellationToken_Cancelled world0)
       = Inr None
   \<and> (case TypeHierarchyModel_create (\<lambda>d. [provider1]) 0 positionA CancellationToken_None world0 of
         (Inr (Some m), w') \<Rightarrow>
           roots m = [nodeA] \<and> ref m = 0 \<and> heap w' = [\<lparr>counter = 1, disposable = sessionK 7\<rparr>]
       | _ \<Rightarrow> False)"
proof -
  have 1: "fst (TypeHierarchyModel_create (\<lambda>d. []) 0 positionA CancellationToken_None world0) = Inr None"
    using create_result [of "\<lambda>d. []" 0 positionA CancellationToken_None world0] by simp
  have p3: "prepareTypeHierarchy provider3 0 positionA CancellationToken_Cancelled = Resolves None"
    by (simp add: provider3_def CancellationToken_Cancelled_def)
  have 2: "fst (TypeHierarchyModel_create (\<lambda>d. [provider3]) 0 positionA CancellationToken_Cancelled world0)
       = Inr None"
    using create_result [of "\<lambda>d. [provider3]" 0 positionA CancellationToken_Cancelled world0] p3
    by simp
  have p1: "prepareTypeHierarchy provider1 0 positionA CancellationToken_None =
      Resolves (Some (sessionK 7))"
    by (simp add: provider1_def sessionK_def)
  note t = create_result [of "\<lambda>d. [provider1]" 0 positionA CancellationToken_None world0,
      THEN conjunct2, THEN conjunct1, rule_format,
      of provider1 "[]" "sessionK 7"]
  have "case TypeHierarchyModel_create (\<lambda>d. [provider1]) 0 positionA CancellationToken_None world0 of
         (Inr (Some m), w') \<Rightarrow>
           roots m = sessionRoots (sessionK 7) \<and> provider m = provider1
           \<and> ref m = length (heap world0)
           \<and> heap w' = heap world0 @
               [\<lparr>counter = 1, disposable = sessionK 7\<rparr>]
       | _ \<Rightarrow> False"
    by (rule t) (simp add: p1)
  then have 3: "case TypeHierarchyModel_create (\<lambda>d. [provider1]) 0 positionA CancellationToken_None world0 of
         (Inr (Some m), w') \<Rightarrow>
           roots m = [nodeA] \<and> ref m = 0 \<and> heap w' = [\<lparr>counter = 1, disposable = sessionK 7\<rparr>]
       | _ \<Rightarrow> False"
    by (simp add: world0_def sessionK_def split: prod.splits sum.splits option.splits)
  from 1 2 3 show ?thesis by blast
qed





subsection \<open>Expansion\<close>

text \<open>
  C3. Whatever the provider does, \<open>provideSupertypes\<close> and \<open>provideSubtypes\<close> return an
  array and never an error. When the provider throws or rejects, the error is handed to
  \<^verbatim>\<open>onUnexpectedExternalError\<close> and the empty array is returned; when it yields an
  array of at least one element, that value is returned as it is; when it yields
  anything else (an empty array, \<^verbatim>\<open>undefined\<close>, a value that is no array), the empty
  array is returned.
\<close>

theorem expansion_never_fails:
  "(case provideSupertypes (provider this) item token of
      Throws e \<Rightarrow>
        TypeHierarchyModel_provideSupertypes this item token w =
          (Inr (JArray []),
           w\<lparr>providerCalls := providerCalls w @ [SupertypesCall item token],
             unexpectedExternalErrors := unexpectedExternalErrors w @ [e]\<rparr>)
    | Rejects e \<Rightarrow>
        TypeHierarchyModel_provideSupertypes this item token w =
          (Inr (JArray []),
           w\<lparr>providerCalls := providerCalls w @ [SupertypesCall item token],
             unexpectedExternalErrors := unexpectedExternalErrors w @ [e]\<rparr>)
    | Resolves result \<Rightarrow>
        TypeHierarchyModel_provideSupertypes this item token w =
          (Inr (if \<exists>x xs. result = JArray (x # xs) then result else JArray []),
           w\<lparr>providerCalls := providerCalls w @ [SupertypesCall item token]\<rparr>))
   \<and> (case provideSubtypes (provider this) item token of
      Throws e \<Rightarrow>
        TypeHierarchyModel_provideSubtypes this item token w =
          (Inr (JArray []),
           w\<lparr>providerCalls := providerCalls w @ [SubtypesCall item token],
             unexpectedExternalErrors := unexpectedExternalErrors w @ [e]\<rparr>)
    | Rejects e \<Rightarrow>
        TypeHierarchyModel_provideSubtypes this item token w =
          (Inr (JArray []),
           w\<lparr>providerCalls := providerCalls w @ [SubtypesCall item token],
             unexpectedExternalErrors := unexpectedExternalErrors w @ [e]\<rparr>)
    | Resolves result \<Rightarrow>
        TypeHierarchyModel_provideSubtypes this item token w =
          (Inr (if \<exists>x xs. result = JArray (x # xs) then result else JArray []),
           w\<lparr>providerCalls := providerCalls w @ [SubtypesCall item token]\<rparr>))
   \<and> (\<exists>xs. fst (TypeHierarchyModel_provideSupertypes this item token w) = Inr (JArray xs))
   \<and> (\<exists>xs. fst (TypeHierarchyModel_provideSubtypes this item token w) = Inr (JArray xs))"
proof -
  have n: "isNonEmptyArray r \<longleftrightarrow> (\<exists>x xs. r = JArray (x # xs))" for r
    by (auto simp: isNonEmptyArray_def split: jsval.splits list.splits)
  show ?thesis
    by (auto simp: TypeHierarchyModel_provideSupertypes_def TypeHierarchyModel_provideSubtypes_def
        onUnexpectedExternalError_def n Let_def split: ProviderResult.splits)
qed


subsection \<open>The expand commands\<close>

lemma Map_get_miss:
  assumes "\<forall>s. k = JString s \<longrightarrow> s \<notin> set (map fst es)"
  shows "Map_get es k = None"
  using assms by (cases k) (simp_all add: Map_get_def map_of_eq_None_iff)

text \<open>
  C8. For a node that passes the shape check and whose \<^verbatim>\<open>_sessionId\<close> is not a key of
  the registry, both expand commands return \<^verbatim>\<open>undefined\<close>, not an error, and leave the
  world as it was: in particular no call into a provider is made.
\<close>

theorem expand_unknown_session:
  assumes "isTypeHierarchyItemDto h (arg args 0) = Inr True"
    and "\<forall>s. getProperty (arg args 0) ''_sessionId'' = JString s \<longrightarrow> s \<notin> set (map fst (models w))"
  shows "executeProvideSupertypes h args w = (Inr JUndefined, w)
     \<and> executeProvideSubtypes h args w = (Inr JUndefined, w)
     \<and> providerCalls (snd (executeProvideSupertypes h args w)) = providerCalls w
     \<and> providerCalls (snd (executeProvideSubtypes h args w)) = providerCalls w"
  using assms(1) Map_get_miss [OF assms(2)]
  by (simp add: executeProvideSupertypes_def executeProvideSubtypes_def assertType_def)

theorem expand_unknown_session_witness:
  "isTypeHierarchyItemDto host1 (arg [itemA] 0) = Inr True
   \<and> getProperty (arg [itemA] 0) ''_sessionId'' = JString ''S1''
   \<and> ''S1'' \<notin> set (map fst (models worldFull))
   \<and> executeProvideSupertypes host1 [itemA] worldFull = (Inr JUndefined, worldFull)
   \<and> executeProvideSubtypes host1 [itemA] worldFull = (Inr JUndefined, worldFull)"
proof -
  have a: "arg [itemA] 0 = itemA" by (simp add: arg_def)
  have h1: "isTypeHierarchyItemDto host1 (arg [itemA] 0) = Inr True"
    unfolding a
    by (simp add: isTypeHierarchyItemDto_def itemA_def host1_def uriA_def rangeA_def)
  have g: "getProperty (arg [itemA] 0) ''_sessionId'' = JString ''S1''"
    unfolding a by (simp add: itemA_def)
  have k: "''S1'' \<notin> set (map fst (models worldFull))"
    by (simp add: worldFull_def world0_def)
  have h2: "\<forall>s. getProperty (arg [itemA] 0) ''_sessionId'' = JString s
              \<longrightarrow> s \<notin> set (map fst (models worldFull))"
    using g k by simp
  from expand_unknown_session [OF h1 h2] h1 g k show ?thesis by simp
qed

lemma map_of_filter_keys:
  "map_of (filter (\<lambda>e. P (fst e)) es) k = (if P k then map_of es k else None)"
  by (induction es) auto

text \<open>
  C9. The shape check reads neither \<^verbatim>\<open>_sessionId\<close> nor \<^verbatim>\<open>_itemId\<close>. An object with a
  string \<^verbatim>\<open>name\<close>, a numeric \<^verbatim>\<open>kind\<close>, a valid \<^verbatim>\<open>uri\<close> and well-formed
  \<^verbatim>\<open>range\<close> and \<^verbatim>\<open>selectionRange\<close> passes it although it has no \<^verbatim>\<open>_sessionId\<close>,
  and so does the same object with both fields removed; the expand commands then go on to
  the registry lookup, which misses, and return \<^verbatim>\<open>undefined\<close> instead of rejecting.
\<close>

theorem validator_ignores_session_id:
  assumes "map_of fs ''name'' = Some (JString n)" "map_of fs ''kind'' = Some (JNumber k)"
    and "isUri h (getProperty (JObject fs) ''uri'')"
    and "isIRange h (getProperty (JObject fs) ''range'')"
    and "isIRange h (getProperty (JObject fs) ''selectionRange'')"
    and "map_of fs ''_sessionId'' = None"
  shows "isTypeHierarchyItemDto h (JObject fs) = Inr True
     \<and> isTypeHierarchyItemDto h
         (JObject (filter (\<lambda>e. fst e \<noteq> ''_sessionId'' \<and> fst e \<noteq> ''_itemId'') fs)) = Inr True
     \<and> executeProvideSupertypes h [JObject fs] w = (Inr JUndefined, w)
     \<and> executeProvideSubtypes h [JObject fs] w = (Inr JUndefined, w)"
proof -
  have 1: "isTypeHierarchyItemDto h (JObject fs) = Inr True"
    using assms by (simp add: isTypeHierarchyItemDto_def)
  have 2: "isTypeHierarchyItemDto h
         (JObject (filter (\<lambda>e. fst e \<noteq> ''_sessionId'' \<and> fst e \<noteq> ''_itemId'') fs)) = Inr True"
    using assms
    by (simp add: isTypeHierarchyItemDto_def
        map_of_filter_keys [where P = "\<lambda>k. k \<noteq> ''_sessionId'' \<and> k \<noteq> ''_itemId''"])
  have a: "arg [JObject fs] 0 = JObject fs" by (simp add: arg_def)
  have g: "Map_get (models w) (getProperty (JObject fs) ''_sessionId'') = None"
    using assms(6) by (simp add: Map_get_def)
  have 3: "executeProvideSupertypes h [JObject fs] w = (Inr JUndefined, w)"
    using 1 g by (simp add: executeProvideSupertypes_def a assertType_def)
  have 4: "executeProvideSubtypes h [JObject fs] w = (Inr JUndefined, w)"
    using 1 g by (simp add: executeProvideSubtypes_def a assertType_def)
  from 1 2 3 4 show ?thesis by blast
qed

theorem validator_ignores_session_id_witness:
  "itemNoSession =
     JObject [(''name'', JString ''A''), (''kind'', JNumber 4), (''uri'', uriA),
              (''range'', rangeA), (''selectionRange'', rangeA)]
   \<and> isTypeHierarchyItemDto host1 itemNoSession = Inr True
   \<and> executeProvideSupertypes host1 [itemNoSession] worldFull = (Inr JUndefined, worldFull)
   \<and> executeProvideSubtypes host1 [itemNoSession] worldFull = (Inr JUndefined, worldFull)"
proof -
  let ?fs = "[(''name'', JString ''A''), (''kind'', JNumber 4), (''uri'', uriA),
              (''range'', rangeA), (''selectionRange'', rangeA)]"
  have h1: "map_of ?fs ''name'' = Some (JString ''A'')" by simp
  have h2: "map_of ?fs ''kind'' = Some (JNumber 4)" by simp
  have h3: "isUri host1 (getProperty (JObject ?fs) ''uri'')"
    by (simp add: host1_def uriA_def)
  have h4: "isIRange host1 (getProperty (JObject ?fs) ''range'')"
    by (simp add: host1_def rangeA_def)
  have h5: "isIRange host1 (getProperty (JObject ?fs) ''selectionRange'')"
    by (simp add: host1_def rangeA_def)
  have h6: "map_of ?fs ''_sessionId'' = None" by simp
  from validator_ignores_session_id [OF h1 h2 h3 h4 h5 h6, of worldFull] show ?thesis
    by (simp add: itemNoSession_def)
qed

end
